theory Spec2Isabelle
  imports Main
begin

section \<open>The peer-selecting request dispatcher of exchange-json-rpc\<close>

text \<open>
  A shallow embedding of \<^verbatim>\<open>packages/rpc/src/services/network.ts\<close> (class
  \<^verbatim>\<open>Network\<close>) and of the BIP38 wallet helpers. The collaborators the class
  awaits (peer discovery, \<^verbatim>\<open>lodash.sample\<close>, \<^verbatim>\<open>is-reachable\<close>, \<^verbatim>\<open>got\<close>,
  \<^verbatim>\<open>JSON\<close>, the crypto package) are not part of the repository: they are fields of an
  environment record. An answer of the outside world may depend on everything that
  happened before, so each such field takes the history of events as its first argument.
  An \<^verbatim>\<open>async\<close> function that may never settle returns \<open>option\<close>, with \<open>None\<close> for a
  promise that stays pending; a rejected promise is \<open>Inl\<close> of the error.
\<close>

subsection \<open>JavaScript values and errors\<close>

datatype jsvalue =
    JUndefined
  | JNull
  | JBool bool
  | JNum int
  | JStr string
  | JArr "jsvalue list"
  | JObj "(string \<times> jsvalue) list"

datatype error_name = TypeError | SyntaxError | RequestError | HTTPError | TimeoutError | OtherError

datatype js_error = Err (err_name: error_name) (message: string)

text \<open>Truthiness, as \<^verbatim>\<open>if (v)\<close>, \<^verbatim>\<open>v && ...\<close> and \<^verbatim>\<open>v ? a : b\<close> test it.\<close>

fun truthy :: "jsvalue \<Rightarrow> bool" where
  "truthy JUndefined = False"
| "truthy JNull = False"
| "truthy (JBool b) = b"
| "truthy (JNum n) = (n \<noteq> 0)"
| "truthy (JStr s) = (s \<noteq> [])"
| "truthy (JArr _) = True"
| "truthy (JObj _) = True"

text \<open>\<^verbatim>\<open>typeof v === "string"\<close>\<close>

fun is_string :: "jsvalue \<Rightarrow> bool" where
  "is_string (JStr _) = True"
| "is_string _ = False"

text \<open>
  Member access \<^verbatim>\<open>v.name\<close> for a name that no prototype defines (\<^verbatim>\<open>data\<close>,
  \<^verbatim>\<open>block\<close>, \<^verbatim>\<open>height\<close>): it throws a TypeError on \<^verbatim>\<open>undefined\<close> and \<^verbatim>\<open>null\<close>,
  reads an own property of an object, and is \<^verbatim>\<open>undefined\<close> everywhere else.
\<close>

fun get_prop :: "jsvalue \<Rightarrow> string \<Rightarrow> js_error + jsvalue" where
  "get_prop JUndefined name =
     Inl (Err TypeError (''Cannot read property '' @ name @ '' of undefined''))"
| "get_prop JNull name =
     Inl (Err TypeError (''Cannot read property '' @ name @ '' of null''))"
| "get_prop (JObj kvs) name =
     Inr (case map_of kvs name of None \<Rightarrow> JUndefined | Some v \<Rightarrow> v)"
| "get_prop _ name = Inr JUndefined"

text \<open>A non-negative integer inside a template literal: its decimal digits.\<close>

fun show_nat :: "nat \<Rightarrow> string" where
  "show_nat n =
     (if n < 10 then [''0123456789'' ! n]
      else show_nat (n div 10) @ [''0123456789'' ! (n mod 10)])"

declare show_nat.simps [simp del]

definition dquote :: string where
  "dquote = [CHR 0x22]"

subsection \<open>Data of the class\<close>

text \<open>\<^verbatim>\<open>IPeer\<close>\<close>

record ipeer =
  ip :: string
  port :: nat

text \<open>
  \<^verbatim>\<open>this.options\<close>. The field \<^verbatim>\<open>peer\<close> is only ever tested for truthiness: \<open>None\<close>
  is a missing value, and the empty string is falsy as well.
\<close>

record network_options =
  network :: string
  peer :: "string option"
  maxLatency :: nat
  peerPort :: nat

text \<open>The \<^verbatim>\<open>options\<close> argument of \<^verbatim>\<open>sendRequest\<close>: \<^verbatim>\<open>{ query }\<close> or \<^verbatim>\<open>{ body }\<close>.\<close>

record request_options =
  query :: "jsvalue option"
  body :: "jsvalue option"

text \<open>What \<^verbatim>\<open>got[method](uri, {...options, headers, timeout})\<close> is called with.\<close>

record request =
  req_method :: string
  req_uri :: string
  req_query :: "jsvalue option"
  req_body :: "jsvalue option"
  req_headers :: "(string \<times> string) list"
  req_timeout :: nat

text \<open>A milestone of the config manager: \<^verbatim>\<open>aip11\<close> (its truthiness) and \<^verbatim>\<open>blocktime\<close>.\<close>

record milestone =
  aip11 :: bool
  blocktime :: nat

datatype level = Info | Warn | Error

datatype event =
    EvFindPeers string
  | EvProbe string bool
  | EvHttp request
  | EvLog level string

text \<open>
  The mutable part: the history of external calls and log lines, the height held by
  \<^verbatim>\<open>Managers.configManager\<close>, and the delays (in ms) of the pending \<^verbatim>\<open>setTimeout\<close>
  calls, whose callback is always \<^verbatim>\<open>checkForAip11Enabled\<close>.
\<close>

record state =
  trace :: "event list"
  height :: jsvalue
  timers :: "nat list"

record env =
  this_options :: network_options
  findPeersWithPlugin :: "event list \<Rightarrow> string \<Rightarrow> js_error + ipeer list"
  random :: "event list \<Rightarrow> nat"
  isReachable :: "event list \<Rightarrow> string \<Rightarrow> bool"
  got :: "event list \<Rightarrow> request \<Rightarrow> js_error + string"
  JSON_parse :: "string \<Rightarrow> js_error + jsvalue"
  JSON_stringify :: "jsvalue \<Rightarrow> string"
  getMilestone :: "jsvalue \<Rightarrow> milestone"

definition emit :: "event \<Rightarrow> state \<Rightarrow> state" where
  "emit e s = s\<lparr>trace := trace s @ [e]\<rparr>"

definition logger :: "level \<Rightarrow> string \<Rightarrow> state \<Rightarrow> state" where
  "logger l msg s = emit (EvLog l msg) s"

subsection \<open>Peer selection\<close>

text \<open>\<^verbatim>\<open>getPeers\<close>: one call of the discovery client, for the plugin \<^verbatim>\<open>core-api\<close>.\<close>

definition getPeers :: "env \<Rightarrow> state \<Rightarrow> (js_error + ipeer list) \<times> state" where
  "getPeers E s =
     (findPeersWithPlugin E (trace s) ''core-api'', emit (EvFindPeers ''core-api'') s)"

text \<open>
  \<^verbatim>\<open>lodash.sample\<close>: \<^verbatim>\<open>undefined\<close> for an empty array, else the element at a random
  index below the length (\<open>r\<close> is the random number drawn).
\<close>

definition sample :: "nat \<Rightarrow> 'a list \<Rightarrow> 'a option" where
  "sample r xs = (if xs = [] then None else Some (xs ! (r mod length xs)))"

definition seed_configured :: "env \<Rightarrow> bool" where
  "seed_configured E =
     (case peer (this_options E) of None \<Rightarrow> False | Some h \<Rightarrow> h \<noteq> [])"

definition probe_target :: "ipeer \<Rightarrow> string" where
  "probe_target p = ip p @ '':'' @ show_nat (port p)"

text \<open>
  \<^verbatim>\<open>getPeer\<close>. Reading \<^verbatim>\<open>peer.ip\<close> of the \<^verbatim>\<open>undefined\<close> that \<^verbatim>\<open>sample\<close> gives for an
  empty array throws a TypeError, which rejects the promise. The recursive call has no
  bound, so the function is partial.
\<close>

partial_function (option) getPeer :: "env \<Rightarrow> state \<Rightarrow> ((js_error + ipeer) \<times> state) option" where
  "getPeer E s =
     (if seed_configured E
      then Some (Inr \<lparr>ip = the (peer (this_options E)), port = peerPort (this_options E)\<rparr>, s)
      else
        (case getPeers E s of
           (Inl e, s1) \<Rightarrow> Some (Inl e, s1)
         | (Inr peers, s1) \<Rightarrow>
            (case sample (random E (trace s1)) peers of
               None \<Rightarrow> Some (Inl (Err TypeError ''Cannot read property ip of undefined''), s1)
             | Some p \<Rightarrow>
                (let reachable = isReachable E (trace s1) (probe_target p);
                     s2 = emit (EvProbe (probe_target p) reachable) s1
                 in if \<not> reachable
                    then getPeer E
                           (logger Warn (probe_target p @ '' is unresponsive. Choosing new peer.'') s2)
                    else Some (Inr \<lparr>ip = ip p, port = port p\<rparr>, s2)))))"

subsection \<open>The dispatcher\<close>

definition api_headers :: "(string \<times> string) list" where
  "api_headers =
     [(''Accept'', ''application/vnd.core-api.v2+json''),
      (''Content-Type'', ''application/json'')]"

definition api_uri :: "ipeer \<Rightarrow> string \<Rightarrow> string" where
  "api_uri p url = ''http://'' @ ip p @ '':'' @ show_nat (port p) @ ''/api/'' @ url"

text \<open>
  The assignment \<^verbatim>\<open>options.body = JSON.stringify(options.body)\<close> and its guard
  \<^verbatim>\<open>options.body && typeof options.body !== "string"\<close>.
\<close>

definition stringify_body :: "env \<Rightarrow> request_options \<Rightarrow> request_options" where
  "stringify_body E options =
     (case body options of
        None \<Rightarrow> options
      | Some b \<Rightarrow>
          if truthy b \<and> \<not> is_string b
          then options\<lparr>body := Some (JStr (JSON_stringify E b))\<rparr>
          else options)"

definition mk_request :: "string \<Rightarrow> string \<Rightarrow> request_options \<Rightarrow> request" where
  "mk_request method uri options =
     \<lparr>req_method = method, req_uri = uri, req_query = query options,
      req_body = body options, req_headers = api_headers, req_timeout = 3000\<rparr>"

text \<open>The line \<^verbatim>\<open>Sending request on "${this.options.network}" to "${uri}"\<close>\<close>

definition sending_message :: "env \<Rightarrow> string \<Rightarrow> string" where
  "sending_message E uri =
     ''Sending request on '' @ dquote @ network (this_options E) @ dquote
       @ '' to '' @ dquote @ uri @ dquote"

text \<open>
  The \<^verbatim>\<open>try\<close> block of \<^verbatim>\<open>sendRequest\<close>: the value it returns or the error it throws,
  the \<^verbatim>\<open>options\<close> object as the block leaves it (the block assigns to
  \<^verbatim>\<open>options.body\<close>), and the state.
\<close>

definition sendRequest_try ::
  "env \<Rightarrow> string \<Rightarrow> string \<Rightarrow> request_options \<Rightarrow> state
     \<Rightarrow> ((js_error + jsvalue) \<times> request_options \<times> state) option" where
  "sendRequest_try E method url options s =
     (case getPeer E s of
        None \<Rightarrow> None
      | Some (Inl e, s1) \<Rightarrow> Some (Inl e, options, s1)
      | Some (Inr p, s1) \<Rightarrow>
          (let uri = api_uri p url;
               s2 = logger Info (sending_message E uri) s1;
               options' = stringify_body E options;
               req = mk_request method uri options';
               s3 = emit (EvHttp req) s2
           in case got E (trace s2) req of
                Inl e \<Rightarrow> Some (Inl e, options', s3)
              | Inr response_body \<Rightarrow>
                  (case JSON_parse E response_body of
                     Inl e \<Rightarrow> Some (Inl e, options', s3)
                   | Inr v \<Rightarrow> Some (Inr v, options', s3))))"

text \<open>
  \<^verbatim>\<open>sendRequest\<close>, with the \<^verbatim>\<open>catch\<close> block written out. The parameter
  \<^verbatim>\<open>useSeed\<close> of the source is never read and is left out.
\<close>

function sendRequest ::
  "env \<Rightarrow> string \<Rightarrow> string \<Rightarrow> request_options \<Rightarrow> nat \<Rightarrow> state \<Rightarrow> (jsvalue \<times> state) option" where
  "sendRequest E method url options tries s =
     (case sendRequest_try E method url options s of
        None \<Rightarrow> None
      | Some (Inr v, options', s1) \<Rightarrow> Some (v, s1)
      | Some (Inl error, options', s1) \<Rightarrow>
          (let s2 = logger Error (message error) s1;
               tries' = tries + 1
           in if tries' > 2
              then Some (JUndefined,
                         logger Error ''Failed to find a responsive peer after 3 tries.'' s2)
              else sendRequest E method url options' tries' s2))"
  by pat_completeness auto
termination
  by (relation "measure (\<lambda>(E, method, url, options, tries, s). 3 - tries)") auto

declare sendRequest.simps [simp del]

text \<open>\<^verbatim>\<open>sendGET\<close> and \<^verbatim>\<open>sendPOST\<close>; a parameter that is \<^verbatim>\<open>undefined\<close> takes its default \<^verbatim>\<open>{}\<close>.\<close>

definition sendGET :: "env \<Rightarrow> string \<Rightarrow> jsvalue \<Rightarrow> state \<Rightarrow> (jsvalue \<times> state) option" where
  "sendGET E path q s =
     sendRequest E ''get'' path
       \<lparr>query = Some (if q = JUndefined then JObj [] else q), body = None\<rparr> 0 s"

definition sendPOST :: "env \<Rightarrow> string \<Rightarrow> jsvalue \<Rightarrow> state \<Rightarrow> (jsvalue \<times> state) option" where
  "sendPOST E path b s =
     sendRequest E ''post'' path
       \<lparr>query = None, body = Some (if b = JUndefined then JObj [] else b)\<rparr> 0 s"

subsection \<open>The milestone watcher\<close>

text \<open>\<^verbatim>\<open>getHeight\<close>: \<^verbatim>\<open>(await this.sendGET({ path: "blockchain" })).data.block.height\<close>\<close>

definition getHeight :: "env \<Rightarrow> state \<Rightarrow> ((js_error + jsvalue) \<times> state) option" where
  "getHeight E s =
     (case sendGET E ''blockchain'' JUndefined s of
        None \<Rightarrow> None
      | Some (r, s1) \<Rightarrow>
          Some ((case get_prop r ''data'' of
                   Inl e \<Rightarrow> Inl e
                 | Inr d \<Rightarrow>
                     (case get_prop d ''block'' of
                        Inl e \<Rightarrow> Inl e
                      | Inr b \<Rightarrow> get_prop b ''height'')), s1))"

text \<open>
  One run of \<^verbatim>\<open>checkForAip11Enabled\<close>. \<^verbatim>\<open>setTimeout\<close> only registers the next run:
  its delay is appended to \<open>timers\<close> and the function returns.
\<close>

definition checkForAip11Enabled :: "env \<Rightarrow> state \<Rightarrow> ((js_error + unit) \<times> state) option" where
  "checkForAip11Enabled E s =
     (case getHeight E s of
        None \<Rightarrow> None
      | Some (Inl e, s1) \<Rightarrow> Some (Inl e, s1)
      | Some (Inr h, s1) \<Rightarrow>
          (let s2 = s1\<lparr>height := h\<rparr>;
               milestone = getMilestone E h
           in if \<not> aip11 milestone
              then Some (Inr (), s2\<lparr>timers := timers s2 @ [blocktime milestone * 1000]\<rparr>)
              else Some (Inr (), s2)))"

subsection \<open>Reading a history\<close>

text \<open>The messages logged at level \<^verbatim>\<open>error\<close>, and the requests handed to \<^verbatim>\<open>got\<close>, in order.\<close>

fun error_logs :: "event list \<Rightarrow> string list" where
  "error_logs [] = []"
| "error_logs (EvLog Error msg # tr) = msg # error_logs tr"
| "error_logs (_ # tr) = error_logs tr"

fun http_requests :: "event list \<Rightarrow> request list" where
  "http_requests [] = []"
| "http_requests (EvHttp r # tr) = r # http_requests tr"
| "http_requests (_ # tr) = http_requests tr"

subsection \<open>The BIP38 wallet helpers\<close>

text \<open>
  The crypto package, \<^verbatim>\<open>wif\<close> and the configured network: \<open>sha256_hex x\<close> is
  \<^verbatim>\<open>Crypto.HashAlgorithms.sha256(Buffer.from(x)).toString("hex")\<close>, \<open>network_wif\<close> is
  \<^verbatim>\<open>Managers.configManager.get("network.wif")\<close>. Only \<^verbatim>\<open>bip38.decrypt\<close> is taken to throw
  (a wrong password).
\<close>

record decrypt_result =
  privateKey :: string
  compressed :: bool

record 'k crypto =
  sha256_hex :: "string \<Rightarrow> string"
  bip38_decrypt :: "string \<Rightarrow> string \<Rightarrow> js_error + decrypt_result"
  wif_encode :: "nat \<Rightarrow> string \<Rightarrow> bool \<Rightarrow> string"
  network_wif :: nat
  keys_fromWIF :: "string \<Rightarrow> 'k"

text \<open>\<^verbatim>\<open>IWallet\<close>\<close>

record 'k wallet =
  keys :: 'k
  wif :: string

text \<open>
  \<^verbatim>\<open>decryptWIF\<close>. The stored value is a string, on which \<^verbatim>\<open>toString("hex")\<close> is the
  identity.
\<close>

definition decryptWIF :: "'k crypto \<Rightarrow> string \<Rightarrow> string \<Rightarrow> string \<Rightarrow> js_error + 'k wallet" where
  "decryptWIF C encryptedWif userId bip38password =
     (case bip38_decrypt C encryptedWif (bip38password @ userId) of
        Inl e \<Rightarrow> Inl e
      | Inr decrypted \<Rightarrow>
          (let encodedWIF =
                 wif_encode C (network_wif C) (privateKey decrypted) (compressed decrypted)
           in Inr \<lparr>keys = keys_fromWIF C encodedWIF, wif = encodedWIF\<rparr>))"

text \<open>
  \<^verbatim>\<open>getBIP38Wallet\<close>. The database service is a store of strings by key; \<^verbatim>\<open>database.get\<close>
  of a key without an entry resolves to \<^verbatim>\<open>undefined\<close>. The result \<open>Inr None\<close> is the
  \<^verbatim>\<open>undefined\<close> of the conditional expression.
\<close>

definition getBIP38Wallet ::
  "'k crypto \<Rightarrow> (string \<rightharpoonup> string) \<Rightarrow> string \<Rightarrow> string \<Rightarrow> js_error + 'k wallet option" where
  "getBIP38Wallet C database userId bip38password =
     (case database (sha256_hex C userId) of
        None \<Rightarrow> Inr None
      | Some encryptedWif \<Rightarrow>
          if encryptedWif \<noteq> []
          then (case decryptWIF C encryptedWif userId bip38password of
                  Inl e \<Rightarrow> Inl e
                | Inr w \<Rightarrow> Inr (Some w))
          else Inr None)"

subsection \<open>Concrete runs\<close>

definition s_init :: state where
  "s_init = \<lparr>trace = [], height = JUndefined, timers = []\<rparr>"

definition peer_one :: ipeer where
  "peer_one = \<lparr>ip = ''10.0.0.1'', port = 4003\<rparr>"

definition peer_two :: ipeer where
  "peer_two = \<lparr>ip = ''10.0.0.2'', port = 4003\<rparr>"

definition height_document :: jsvalue where
  "height_document = JObj [(''data'', JObj [(''block'', JObj [(''height'', JNum 100)])])]"

definition parse_stub :: "string \<Rightarrow> js_error + jsvalue" where
  "parse_stub b =
     (if b = ''<html>'' then Inl (Err SyntaxError ''Unexpected token < in JSON at position 0'')
      else Inr height_document)"

definition discover_nothing :: "event list \<Rightarrow> string \<Rightarrow> js_error + ipeer list" where
  "discover_nothing tr plugin = Inr []"

definition discover_one :: "event list \<Rightarrow> string \<Rightarrow> js_error + ipeer list" where
  "discover_one tr plugin = Inr [peer_one]"

definition discover_two :: "event list \<Rightarrow> string \<Rightarrow> js_error + ipeer list" where
  "discover_two tr plugin = Inr [peer_one, peer_two]"

definition never_reachable :: "event list \<Rightarrow> string \<Rightarrow> bool" where
  "never_reachable tr target = False"

definition always_reachable :: "event list \<Rightarrow> string \<Rightarrow> bool" where
  "always_reachable tr target = True"

definition got_timeout :: "event list \<Rightarrow> request \<Rightarrow> js_error + string" where
  "got_timeout tr req = Inl (Err TimeoutError ''Timeout awaiting request for 3000ms'')"

definition got_ok :: "event list \<Rightarrow> request \<Rightarrow> js_error + string" where
  "got_ok tr req = Inr ''{}''"

text \<open>The first peer answers every request with status 500, the second one answers.\<close>

definition got_first_down :: "event list \<Rightarrow> request \<Rightarrow> js_error + string" where
  "got_first_down tr req =
     (if req_uri req = api_uri peer_one ''blockchain''
      then Inl (Err HTTPError ''Response code 500 (Internal Server Error)'')
      else Inr ''{}'')"

definition no_seed :: network_options where
  "no_seed = \<lparr>network = ''mainnet'', peer = None, maxLatency = 300, peerPort = 4003\<rparr>"

definition with_seed :: network_options where
  "with_seed = \<lparr>network = ''mainnet'', peer = Some ''10.0.0.9'', maxLatency = 300, peerPort = 4003\<rparr>"

definition never_aip11 :: "jsvalue \<Rightarrow> milestone" where
  "never_aip11 h = \<lparr>aip11 = False, blocktime = 8\<rparr>"

definition stringify_stub :: "jsvalue \<Rightarrow> string" where
  "stringify_stub v = ''{}''"

text \<open>A seed peer is configured and every request times out.\<close>

definition env_seed_down :: env where
  "env_seed_down =
     \<lparr>this_options = with_seed, findPeersWithPlugin = discover_two,
      random = (\<lambda>tr. 0), isReachable = always_reachable, got = got_timeout,
      JSON_parse = parse_stub, JSON_stringify = stringify_stub, getMilestone = never_aip11\<rparr>"

text \<open>A seed peer is configured and answers.\<close>

definition env_seed_up :: env where
  "env_seed_up = env_seed_down\<lparr>got := got_ok\<rparr>"

text \<open>
  No seed peer; discovery knows two reachable peers, and the random index drawn is the
  number of requests sent so far.
\<close>

definition env_two :: env where
  "env_two =
     \<lparr>this_options = no_seed, findPeersWithPlugin = discover_two,
      random = (\<lambda>tr. length (http_requests tr)), isReachable = always_reachable,
      got = got_first_down,
      JSON_parse = parse_stub, JSON_stringify = stringify_stub, getMilestone = never_aip11\<rparr>"

text \<open>No seed peer; discovery has no candidate, respectively one that never answers a probe.\<close>

definition env_none :: env where
  "env_none = env_two\<lparr>findPeersWithPlugin := discover_nothing, isReachable := never_reachable\<rparr>"

definition env_one_dead :: env where
  "env_one_dead = env_two\<lparr>findPeersWithPlugin := discover_one, isReachable := never_reachable\<rparr>"

text \<open>A stand-in for the crypto package, and two databases: one entry for alice, blank or not.\<close>

definition crypto_stub :: "string crypto" where
  "crypto_stub =
     \<lparr>sha256_hex = (\<lambda>u. ''sha256:'' @ u),
      bip38_decrypt =
        (\<lambda>w k. if k = ''secretalice'' then Inr \<lparr>privateKey = ''d'' @ w, compressed = True\<rparr>
                else Inl (Err OtherError ''Assertion failed'')),
      wif_encode = (\<lambda>v k c. ''wif:'' @ k),
      network_wif = 170,
      keys_fromWIF = (\<lambda>w. ''keys:'' @ w)\<rparr>"

definition db_blank :: "string \<rightharpoonup> string" where
  "db_blank = [''sha256:alice'' \<mapsto> []]"

definition db_alice :: "string \<rightharpoonup> string" where
  "db_alice = [''sha256:alice'' \<mapsto> ''6PYalice'']"

section \<open>Properties\<close>

subsection \<open>Histories and peer selection\<close>

lemma getPeer_body_cases:
  assumes "(if seed_configured E
      then Some (Inr \<lparr>ip = the (peer (this_options E)), port = peerPort (this_options E)\<rparr>, s)
      else
        (case getPeers E s of
           (Inl e, s1) \<Rightarrow> Some (Inl e, s1)
         | (Inr peers, s1) \<Rightarrow>
            (case sample (random E (trace s1)) peers of
               None \<Rightarrow> Some (Inl (Err TypeError ''Cannot read property ip of undefined''), s1)
             | Some p \<Rightarrow>
                (let reachable = isReachable E (trace s1) (probe_target p);
                     s2 = emit (EvProbe (probe_target p) reachable) s1
                 in if \<not> reachable
                    then f E
                           (logger Warn (probe_target p @ '' is unresponsive. Choosing new peer.'') s2)
                    else Some (Inr \<lparr>ip = ip p, port = port p\<rparr>, s2))))) = Some r"
  obtains
    (seed) "seed_configured E"
      "r = (Inr \<lparr>ip = the (peer (this_options E)), port = peerPort (this_options E)\<rparr>, s)"
  | (rejected) e where "\<not> seed_configured E"
      "findPeersWithPlugin E (trace s) ''core-api'' = Inl e"
      "r = (Inl e, emit (EvFindPeers ''core-api'') s)"
  | (empty) ps where "\<not> seed_configured E"
      "findPeersWithPlugin E (trace s) ''core-api'' = Inr ps"
      "sample (random E (trace (emit (EvFindPeers ''core-api'') s))) ps = None"
      "r = (Inl (Err TypeError ''Cannot read property ip of undefined''), emit (EvFindPeers ''core-api'') s)"
  | (unreachable) ps p where "\<not> seed_configured E"
      "findPeersWithPlugin E (trace s) ''core-api'' = Inr ps"
      "sample (random E (trace (emit (EvFindPeers ''core-api'') s))) ps = Some p"
      "\<not> isReachable E (trace (emit (EvFindPeers ''core-api'') s)) (probe_target p)"
      "f E (logger Warn (probe_target p @ '' is unresponsive. Choosing new peer.'')
              (emit (EvProbe (probe_target p) False) (emit (EvFindPeers ''core-api'') s))) = Some r"
  | (reachable) ps p where "\<not> seed_configured E"
      "findPeersWithPlugin E (trace s) ''core-api'' = Inr ps"
      "sample (random E (trace (emit (EvFindPeers ''core-api'') s))) ps = Some p"
      "isReachable E (trace (emit (EvFindPeers ''core-api'') s)) (probe_target p)"
      "r = (Inr \<lparr>ip = ip p, port = port p\<rparr>,
            emit (EvProbe (probe_target p) True) (emit (EvFindPeers ''core-api'') s))"
proof (cases "seed_configured E")
  case True
  with assms seed show ?thesis by simp
next
  case ns: False
  show ?thesis
  proof (cases "findPeersWithPlugin E (trace s) ''core-api''")
    case (Inl e)
    with assms ns rejected show ?thesis by (simp add: getPeers_def)
  next
    case (Inr ps)
    show ?thesis
    proof (cases "sample (random E (trace (emit (EvFindPeers ''core-api'') s))) ps")
      case None
      with assms ns Inr empty show ?thesis by (simp add: getPeers_def)
    next
      case (Some p)
      show ?thesis
      proof (cases "isReachable E (trace (emit (EvFindPeers ''core-api'') s)) (probe_target p)")
        case True
        with assms ns Inr Some reachable show ?thesis by (simp add: getPeers_def)
      next
        case False
        with assms ns Inr Some unreachable show ?thesis by (simp add: getPeers_def)
      qed
    qed
  qed
qed


lemma error_logs_append: "error_logs (xs @ ys) = error_logs xs @ error_logs ys"
  by (induction xs rule: error_logs.induct) simp_all

lemma http_requests_append: "http_requests (xs @ ys) = http_requests xs @ http_requests ys"
  by (induction xs rule: http_requests.induct) simp_all


lemma sample_nonempty: "xs \<noteq> [] \<Longrightarrow> \<exists>x. sample r xs = Some x"
  by (simp add: sample_def)

lemma emit_simps [simp]:
  "trace (emit e s) = trace s @ [e]" "height (emit e s) = height s" "timers (emit e s) = timers s"
  by (simp_all add: emit_def)

lemma logger_simps [simp]:
  "trace (logger l m s) = trace s @ [EvLog l m]" "height (logger l m s) = height s"
  "timers (logger l m s) = timers s"
  by (simp_all add: logger_def)

lemma getPeer_frame:
  assumes "getPeer E s = Some r"
  shows "height (snd r) = height s \<and> timers (snd r) = timers s
       \<and> error_logs (trace (snd r)) = error_logs (trace s)
       \<and> http_requests (trace (snd r)) = http_requests (trace s)"
  using assms
proof (induction rule: getPeer.raw_induct[rotated 1, consumes 1])
  case (1 f E s r)
  from "1.hyps" show ?case
  proof (cases rule: getPeer_body_cases)
    case (unreachable ps p)
    from "1.IH"[OF unreachable(5)] show ?thesis
      by (simp add: error_logs_append http_requests_append)
  qed (simp_all add: error_logs_append http_requests_append)
qed

lemma getPeer_extends:
  assumes "getPeer E s = Some r"
  shows "\<exists>evs. trace (snd r) = trace s @ evs"
  using assms
proof (induction rule: getPeer.raw_induct[rotated 1, consumes 1])
  case (1 f E s r)
  from "1.hyps" show ?case
  proof (cases rule: getPeer_body_cases)
    case (unreachable ps p)
    from "1.IH"[OF unreachable(5)] show ?thesis by auto
  qed simp_all
qed

lemma getPeer_probed:
  assumes "getPeer E s = Some (Inr p, s')" and "\<not> seed_configured E"
  shows "\<exists>tr. trace s' = tr @ [EvProbe (probe_target p) True] \<and> isReachable E tr (probe_target p)"
proof -
  have "getPeer E s = Some r \<Longrightarrow> \<not> seed_configured E \<Longrightarrow> r = (Inr p, s') \<Longrightarrow>
        \<exists>tr. trace s' = tr @ [EvProbe (probe_target p) True] \<and> isReachable E tr (probe_target p)" for r
  proof (induction rule: getPeer.raw_induct[rotated 1, consumes 1])
    case (1 f E s r)
    from "1.hyps" show ?case
    proof (cases rule: getPeer_body_cases)
      case (unreachable ps q)
      from "1.IH"[OF unreachable(5) "1.prems"] show ?thesis .
    next
      case (reachable ps q)
      with "1.prems" have "p = \<lparr>ip = ip q, port = port q\<rparr>"
        and s': "s' = emit (EvProbe (probe_target q) True) (emit (EvFindPeers ''core-api'') s)"
        by simp_all
      then have "probe_target p = probe_target q" by (simp add: probe_target_def)
      with reachable(4) s' show ?thesis by simp
    qed (use "1.prems" in simp_all)
  qed
  with assms show ?thesis by blast
qed


subsection \<open>One attempt and the retry loop\<close>

lemma try_selected:
  assumes "getPeer E s = Some (Inr p, s1)"
  shows "\<exists>r s3. sendRequest_try E method url options s = Some (r, stringify_body E options, s3)
           \<and> trace s3 = trace s1 @ [EvLog Info (sending_message E (api_uri p url)),
                                     EvHttp (mk_request method (api_uri p url) (stringify_body E options))]
           \<and> height s3 = height s1 \<and> timers s3 = timers s1
           \<and> r = (case got E (trace s1 @ [EvLog Info (sending_message E (api_uri p url))])
                          (mk_request method (api_uri p url) (stringify_body E options)) of
                    Inl e \<Rightarrow> Inl e
                  | Inr b \<Rightarrow> JSON_parse E b)"
  using assms
  by (auto simp: sendRequest_try_def Let_def emit_def logger_def split: sum.splits)

lemma try_rejected:
  assumes "getPeer E s = Some (Inl e, s1)"
  shows "sendRequest_try E method url options s = Some (Inl e, options, s1)"
  using assms by (simp add: sendRequest_try_def)

lemma try_frame:
  assumes "sendRequest_try E method url options s = Some (r, options', s')"
  shows "height s' = height s \<and> timers s' = timers s
       \<and> error_logs (trace s') = error_logs (trace s)
       \<and> (\<exists>evs. trace s' = trace s @ evs)"
proof (cases "getPeer E s")
  case None
  with assms show ?thesis by (simp add: sendRequest_try_def)
next
  case (Some a)
  obtain x s1 where a: "a = (x, s1)" by (cases a)
  from getPeer_frame[OF Some] getPeer_extends[OF Some] a
  have f: "height s1 = height s" "timers s1 = timers s"
    "error_logs (trace s1) = error_logs (trace s)" "\<exists>evs. trace s1 = trace s @ evs"
    by auto
  show ?thesis
  proof (cases x)
    case (Inl e)
    with assms Some a f show ?thesis by (simp add: sendRequest_try_def)
  next
    case (Inr p)
    with Some a have "getPeer E s = Some (Inr p, s1)" by simp
    from try_selected[OF this, of "method" url options] assms f
    show ?thesis by (auto simp: error_logs_append)
  qed
qed

lemma sendRequest_frame:
  "sendRequest E m url options tries s = Some (v, s') \<Longrightarrow>
     height s' = height s \<and> timers s' = timers s \<and> (\<exists>evs. trace s' = trace s @ evs)"
proof (induction E m url options tries s rule: sendRequest.induct)
  case (1 E m url options tries s)
  show ?case
  proof (cases "sendRequest_try E m url options s")
    case None
    with "1.prems" show ?thesis by (simp add: sendRequest.simps)
  next
    case (Some a)
    obtain r options' s1 where a: "a = (r, options', s1)" by (cases a)
    note fr = try_frame[OF Some[unfolded a]]
    show ?thesis
    proof (cases r)
      case (Inr v')
      with "1.prems" Some a fr show ?thesis by (simp add: sendRequest.simps)
    next
      case (Inl e)
      show ?thesis
      proof (cases "tries + 1 > 2")
        case True
        with "1.prems" Some a Inl fr show ?thesis
          by (auto simp: sendRequest.simps Let_def logger_def emit_def)
      next
        case False
        with "1.prems" Some a Inl
        have rec: "sendRequest E m url options' (tries + 1) (logger Error (message e) s1) = Some (v, s')"
          by (simp add: sendRequest.simps Let_def)
        from "1.IH"[OF Some[unfolded a] refl Inl refl refl refl False rec] fr
        show ?thesis by (auto simp: logger_def emit_def)
      qed
    qed
  qed
qed

lemma sendRequest_retry:
  assumes "sendRequest_try E method url options s = Some (Inl e, options1, s1)" and "tries < 2"
  shows "sendRequest E method url options tries s =
         sendRequest E method url options1 (Suc tries) (logger Error (message e) s1)"
  using assms by (subst sendRequest.simps) (simp add: Let_def)

lemma sendRequest_give_up:
  assumes "sendRequest_try E method url options s = Some (Inl e, options1, s1)" and "2 \<le> tries"
  shows "sendRequest E method url options tries s =
         Some (JUndefined, logger Error ''Failed to find a responsive peer after 3 tries.''
                             (logger Error (message e) s1))"
  using assms by (subst sendRequest.simps) (simp add: Let_def)

lemma sendRequest_success:
  assumes "sendRequest_try E method url options s = Some (Inr v, options1, s1)"
  shows "sendRequest E method url options tries s = Some (v, s1)"
  using assms by (subst sendRequest.simps) simp

lemma sendRequest_three_failures:
  assumes a1: "sendRequest_try E method url options s = Some (Inl e1, options1, s1)"
      and a2: "sendRequest_try E method url options1 (logger Error (message e1) s1)
                 = Some (Inl e2, options2, s2)"
      and a3: "sendRequest_try E method url options2 (logger Error (message e2) s2)
                 = Some (Inl e3, options3, s3)"
  shows "sendRequest E method url options 0 s =
         Some (JUndefined, logger Error ''Failed to find a responsive peer after 3 tries.''
                             (logger Error (message e3) s3))"
proof -
  have "sendRequest E method url options 0 s
        = sendRequest E method url options1 (Suc 0) (logger Error (message e1) s1)"
    using a1 by (rule sendRequest_retry) simp
  also have "\<dots> = sendRequest E method url options2 (Suc (Suc 0)) (logger Error (message e2) s2)"
    using a2 by (rule sendRequest_retry) simp
  also have "\<dots> = Some (JUndefined, logger Error ''Failed to find a responsive peer after 3 tries.''
                             (logger Error (message e3) s3))"
    using a3 by (rule sendRequest_give_up) simp
  finally show ?thesis .
qed

lemma try_http_failure:
  assumes sel: "\<forall>s. \<exists>p s1. getPeer E s = Some (Inr p, s1)"
      and fail: "\<forall>tr req. case got E tr req of Inl e \<Rightarrow> True | Inr b \<Rightarrow> isl (JSON_parse E b)"
  shows "\<exists>e s' req. sendRequest_try E method url options s = Some (Inl e, stringify_body E options, s')
           \<and> http_requests (trace s') = http_requests (trace s) @ [req]
           \<and> error_logs (trace s') = error_logs (trace s)"
proof -
  from sel obtain p s1 where g: "getPeer E s = Some (Inr p, s1)" by blast
  let ?req = "mk_request method (api_uri p url) (stringify_body E options)"
  let ?tr = "trace s1 @ [EvLog Info (sending_message E (api_uri p url))]"
  from try_selected[OF g, of "method" url options] obtain r s3 where
    t: "sendRequest_try E method url options s = Some (r, stringify_body E options, s3)"
    and tr: "trace s3 = trace s1 @ [EvLog Info (sending_message E (api_uri p url)), EvHttp ?req]"
    and r: "r = (case got E ?tr ?req of Inl e \<Rightarrow> Inl e | Inr b \<Rightarrow> JSON_parse E b)"
    by blast
  from fail have "case got E ?tr ?req of Inl e \<Rightarrow> True | Inr b \<Rightarrow> isl (JSON_parse E b)" by blast
  with r obtain e where e: "r = Inl e" by (auto split: sum.splits simp: isl_def)
  from getPeer_frame[OF g] have f: "error_logs (trace s1) = error_logs (trace s)"
    "http_requests (trace s1) = http_requests (trace s)" by simp_all
  from t e tr f show ?thesis by (simp add: error_logs_append http_requests_append)
qed

lemma all_attempts_fail:
  assumes sel: "\<forall>s. \<exists>p s1. getPeer E s = Some (Inr p, s1)"
      and fail: "\<forall>tr req. case got E tr req of Inl e \<Rightarrow> True | Inr b \<Rightarrow> isl (JSON_parse E b)"
  shows "\<exists>s' r1 r2 r3 m1 m2 m3.
           sendRequest E method url options 0 s = Some (JUndefined, s')
         \<and> http_requests (trace s') = http_requests (trace s) @ [r1, r2, r3]
         \<and> error_logs (trace s') = error_logs (trace s) @
              [m1, m2, m3, ''Failed to find a responsive peer after 3 tries.'']"
proof -
  note step = try_http_failure[OF sel fail]
  from step[of "method" url options s] obtain e1 s1 r1 where
    a1: "sendRequest_try E method url options s = Some (Inl e1, stringify_body E options, s1)"
    and h1: "http_requests (trace s1) = http_requests (trace s) @ [r1]"
    and l1: "error_logs (trace s1) = error_logs (trace s)" by blast
  let ?o1 = "stringify_body E options"
  let ?t1 = "logger Error (message e1) s1"
  from step[of "method" url ?o1 ?t1] obtain e2 s2 r2 where
    a2: "sendRequest_try E method url ?o1 ?t1 = Some (Inl e2, stringify_body E ?o1, s2)"
    and h2: "http_requests (trace s2) = http_requests (trace ?t1) @ [r2]"
    and l2: "error_logs (trace s2) = error_logs (trace ?t1)" by blast
  let ?o2 = "stringify_body E ?o1"
  let ?t2 = "logger Error (message e2) s2"
  from step[of "method" url ?o2 ?t2] obtain e3 s3 r3 where
    a3: "sendRequest_try E method url ?o2 ?t2 = Some (Inl e3, stringify_body E ?o2, s3)"
    and h3: "http_requests (trace s3) = http_requests (trace ?t2) @ [r3]"
    and l3: "error_logs (trace s3) = error_logs (trace ?t2)" by blast
  let ?final = "logger Error ''Failed to find a responsive peer after 3 tries.''
                  (logger Error (message e3) s3)"
  have res: "sendRequest E method url options 0 s = Some (JUndefined, ?final)"
    by (rule sendRequest_three_failures[OF a1 a2 a3])
  have hs: "http_requests (trace ?final) = http_requests (trace s) @ [r1, r2, r3]"
    using h1 h2 h3 by (simp add: logger_def emit_def http_requests_append)
  have ls: "error_logs (trace ?final) = error_logs (trace s) @
              [message e1, message e2, message e3, ''Failed to find a responsive peer after 3 tries.'']"
    using l1 l2 l3 by (simp add: logger_def emit_def error_logs_append)
  from res hs ls show ?thesis by blast
qed

lemma getPeer_with_seed [simp]:
  "getPeer env_seed_down s = Some (Inr \<lparr>ip = ''10.0.0.9'', port = 4003\<rparr>, s)"
  by (subst getPeer.simps) (simp add: env_seed_down_def with_seed_def seed_configured_def)

text \<open>
  C1. When peer selection always yields a peer and every HTTP exchange fails (\<^verbatim>\<open>got\<close>
  rejects: timeout, connection error, non-2xx status; or the body does not parse), a
  call of \<^verbatim>\<open>sendRequest\<close> with \<^verbatim>\<open>tries = 0\<close> returns, and returns \<^verbatim>\<open>undefined\<close>
  instead of throwing; it has sent exactly three requests, and it has logged exactly four
  lines at level error: one per attempt, then the final
  \<^verbatim>\<open>Failed to find a responsive peer after 3 tries.\<close>
\<close>

theorem sendRequest_exhausted:
  assumes "\<forall>s. \<exists>p s1. getPeer E s = Some (Inr p, s1)"
      and "\<forall>tr req. case got E tr req of Inl e \<Rightarrow> True | Inr b \<Rightarrow> isl (JSON_parse E b)"
  shows "\<exists>s' r1 r2 r3 m1 m2 m3.
           sendRequest E m url options 0 s = Some (JUndefined, s')
         \<and> http_requests (trace s') = http_requests (trace s) @ [r1, r2, r3]
         \<and> error_logs (trace s') = error_logs (trace s) @
              [m1, m2, m3, ''Failed to find a responsive peer after 3 tries.'']"
  using assms by (rule all_attempts_fail)

theorem sendRequest_exhausted_witness:
  "\<exists>s' r1 r2 r3 m1 m2 m3.
      sendRequest env_seed_down ''get'' ''blockchain'' \<lparr>query = Some (JObj []), body = None\<rparr> 0 s_init
        = Some (JUndefined, s')
    \<and> http_requests (trace s') = http_requests (trace s_init) @ [r1, r2, r3]
    \<and> error_logs (trace s') = error_logs (trace s_init) @
              [m1, m2, m3, ''Failed to find a responsive peer after 3 tries.'']"
proof -
  have sel: "\<forall>s. \<exists>p s1. getPeer env_seed_down s = Some (Inr p, s1)"
    by simp
  have fail: "\<forall>tr req. case got env_seed_down tr req of Inl e \<Rightarrow> True
                        | Inr b \<Rightarrow> isl (JSON_parse env_seed_down b)"
    by (simp add: env_seed_down_def got_timeout_def)
  show ?thesis by (rule sendRequest_exhausted[OF sel fail])
qed

subsection \<open>The seed peer, the empty candidate list, the probe\<close>

lemma getPeer_seed:
  "seed_configured E \<Longrightarrow>
   getPeer E s = Some (Inr \<lparr>ip = the (peer (this_options E)), port = peerPort (this_options E)\<rparr>, s)"
  by (subst getPeer.simps) simp

lemma getPeer_reachable:
  assumes "\<not> seed_configured E"
    and "findPeersWithPlugin E (trace s) ''core-api'' = Inr ps"
    and "sample (random E (trace s @ [EvFindPeers ''core-api''])) ps = Some p"
    and "isReachable E (trace s @ [EvFindPeers ''core-api'']) (probe_target p)"
  shows "getPeer E s = Some (Inr \<lparr>ip = ip p, port = port p\<rparr>,
           emit (EvProbe (probe_target p) True) (emit (EvFindPeers ''core-api'') s))"
  using assms by (subst getPeer.simps) (simp add: getPeers_def)


lemma getPeer_empty:
  assumes "\<not> seed_configured E"
    and "findPeersWithPlugin E (trace s) ''core-api'' = Inr []"
  shows "getPeer E s = Some (Inl (Err TypeError ''Cannot read property ip of undefined''),
           emit (EvFindPeers ''core-api'') s)"
  using assms by (subst getPeer.simps) (simp add: getPeers_def sample_def)

text \<open>
  C3. With a seed peer configured (\<^verbatim>\<open>this.options.peer\<close> is a non-empty string),
  \<^verbatim>\<open>getPeer\<close> returns exactly that host with \<^verbatim>\<open>peerPort\<close>, in every state and whatever
  discovery would answer; the state is returned unchanged, so neither discovery nor a
  probe was called.
\<close>

theorem getPeer_seed_verbatim:
  assumes "peer (this_options E) = Some h" and "h \<noteq> []"
  shows "getPeer E s = Some (Inr \<lparr>ip = h, port = peerPort (this_options E)\<rparr>, s)"
  using assms getPeer_seed[of E s] by (simp add: seed_configured_def)

theorem getPeer_seed_verbatim_witness:
  "getPeer env_seed_up s_init = Some (Inr \<lparr>ip = ''10.0.0.9'', port = 4003\<rparr>, s_init)
   \<and> findPeersWithPlugin env_seed_up (trace s_init) ''core-api'' = Inr [peer_one, peer_two]"
  using getPeer_seed_verbatim[of env_seed_up "''10.0.0.9''" s_init]
  by (simp add: env_seed_up_def env_seed_down_def with_seed_def discover_two_def)

text \<open>
  C8. Without a seed peer, when discovery answers with the empty list, \<^verbatim>\<open>getPeer\<close>
  returns no peer: reading \<^verbatim>\<open>peer.ip\<close> of \<^verbatim>\<open>undefined\<close> throws a TypeError.
\<close>

theorem getPeer_no_candidate:
  assumes "\<not> seed_configured E"
    and "findPeersWithPlugin E (trace s) ''core-api'' = Inr []"
  shows "getPeer E s = Some (Inl (Err TypeError ''Cannot read property ip of undefined''),
                             emit (EvFindPeers ''core-api'') s)
       \<and> (\<forall>p s'. getPeer E s \<noteq> Some (Inr p, s'))"
  using getPeer_empty[OF assms] by simp

lemma env_none_simps [simp]:
  "seed_configured env_none = False" "findPeersWithPlugin env_none tr pl = Inr []"
  "isReachable env_none tr t = False"
  by (simp_all add: env_none_def env_two_def no_seed_def seed_configured_def
        discover_nothing_def never_reachable_def)

theorem getPeer_no_candidate_witness:
  "getPeer env_none s_init =
     Some (Inl (Err TypeError ''Cannot read property ip of undefined''),
           \<lparr>trace = [EvFindPeers ''core-api''], height = JUndefined, timers = []\<rparr>)
   \<and> (\<forall>p s'. getPeer env_none s_init \<noteq> Some (Inr p, s'))"
  using getPeer_no_candidate[of env_none s_init]
  by (simp add: s_init_def emit_def)

text \<open>
  C5. Without a seed peer, a peer that \<^verbatim>\<open>getPeer\<close> returns has just passed the probe:
  the last event of the history is the probe of its \<^verbatim>\<open>ip:port\<close>, answered \<^verbatim>\<open>true\<close>.
\<close>

theorem getPeer_returns_probed_peer:
  assumes "\<not> seed_configured E" and "getPeer E s = Some (Inr p, s')"
  shows "\<exists>tr. trace s' = tr @ [EvProbe (ip p @ '':'' @ show_nat (port p)) True]
            \<and> isReachable E tr (ip p @ '':'' @ show_nat (port p))"
  using getPeer_probed[OF assms(2,1)] by (simp add: probe_target_def)

lemma env_two_simps [simp]:
  "seed_configured env_two = False"
  "findPeersWithPlugin env_two tr pl = Inr [peer_one, peer_two]"
  "isReachable env_two tr t = True"
  "random env_two tr = length (http_requests tr)"
  "got env_two tr req = got_first_down tr req"
  "JSON_parse env_two = parse_stub"
  by (simp_all add: env_two_def no_seed_def seed_configured_def discover_two_def
        always_reachable_def)

lemma getPeer_env_two:
  "getPeer env_two s =
     Some (Inr ([peer_one, peer_two] ! (length (http_requests (trace s)) mod 2)),
           emit (EvProbe (probe_target ([peer_one, peer_two] ! (length (http_requests (trace s)) mod 2))) True)
             (emit (EvFindPeers ''core-api'') s))"
proof -
  let ?p = "[peer_one, peer_two] ! (length (http_requests (trace s)) mod 2)"
  have "getPeer env_two s = Some (Inr \<lparr>ip = ip ?p, port = port ?p\<rparr>,
           emit (EvProbe (probe_target ?p) True) (emit (EvFindPeers ''core-api'') s))"
    by (rule getPeer_reachable[where ps = "[peer_one, peer_two]"])
       (simp_all add: sample_def http_requests_append numeral_2_eq_2)
  then show ?thesis by simp
qed

theorem getPeer_returns_probed_peer_witness:
  "\<not> seed_configured env_two
   \<and> getPeer env_two s_init =
       Some (Inr peer_one,
             \<lparr>trace = [EvFindPeers ''core-api'', EvProbe ''10.0.0.1:4003'' True],
              height = JUndefined, timers = []\<rparr>)
   \<and> (\<exists>tr. [EvFindPeers ''core-api'', EvProbe ''10.0.0.1:4003'' True]
             = tr @ [EvProbe ''10.0.0.1:4003'' True]
          \<and> isReachable env_two tr ''10.0.0.1:4003'')"
proof -
  have pt: "probe_target peer_one = ''10.0.0.1:4003''"
    by (simp add: probe_target_def peer_one_def show_nat.simps)
  have g: "getPeer env_two s_init =
       Some (Inr peer_one,
             \<lparr>trace = [EvFindPeers ''core-api'', EvProbe ''10.0.0.1:4003'' True],
              height = JUndefined, timers = []\<rparr>)"
    by (simp add: getPeer_env_two s_init_def emit_def pt)
  have ns: "\<not> seed_configured env_two" by simp
  from getPeer_returns_probed_peer[OF ns g] pt show ?thesis
    using g ns by (simp add: peer_one_def probe_target_def)
qed

subsection \<open>Unreachable peers; the request of an attempt\<close>


lemma env_one_dead_simps [simp]:
  "seed_configured env_one_dead = False" "findPeersWithPlugin env_one_dead tr pl = Inr [peer_one]"
  "isReachable env_one_dead tr t = False"
  by (simp_all add: env_one_dead_def env_two_def no_seed_def seed_configured_def
        discover_one_def never_reachable_def)


text \<open>
  C6. An attempt whose peer selection returned \<open>p\<close> sends exactly one request: to
  \<^verbatim>\<open>http://{p.ip}:{p.port}/api/{url}\<close>, with the headers
  \<^verbatim>\<open>Accept: application/vnd.core-api.v2+json\<close> and \<^verbatim>\<open>Content-Type: application/json\<close>, the
  timeout 3000, and a body that is replaced by its JSON text exactly when it is truthy
  and not a string. The bodies that \<^verbatim>\<open>sendPOST\<close> is typed to take are objects, which are
  truthy; a retry finds the string that the first attempt left.
\<close>

theorem sendRequest_try_request:
  assumes "getPeer E s = Some (Inr p, s1)"
  shows "\<exists>r s3. sendRequest_try E m url options s = Some (r, stringify_body E options, s3)
          \<and> http_requests (trace s3) = http_requests (trace s1) @
              [\<lparr>req_method = m,
                req_uri = ''http://'' @ ip p @ '':'' @ show_nat (port p) @ ''/api/'' @ url,
                req_query = query options,
                req_body =
                  (case body options of
                     None \<Rightarrow> None
                   | Some b \<Rightarrow>
                       if truthy b \<and> \<not> is_string b then Some (JStr (JSON_stringify E b))
                       else Some b),
                req_headers =
                  [(''Accept'', ''application/vnd.core-api.v2+json''),
                   (''Content-Type'', ''application/json'')],
                req_timeout = 3000\<rparr>]"
proof -
  from try_selected[OF assms, of m url options] obtain r s3 where
    t: "sendRequest_try E m url options s = Some (r, stringify_body E options, s3)"
    and tr: "trace s3 = trace s1 @ [EvLog Info (sending_message E (api_uri p url)),
               EvHttp (mk_request m (api_uri p url) (stringify_body E options))]"
    by blast
  have "mk_request m (api_uri p url) (stringify_body E options) =
        \<lparr>req_method = m,
         req_uri = ''http://'' @ ip p @ '':'' @ show_nat (port p) @ ''/api/'' @ url,
         req_query = query options,
         req_body =
           (case body options of
              None \<Rightarrow> None
            | Some b \<Rightarrow>
                if truthy b \<and> \<not> is_string b then Some (JStr (JSON_stringify E b))
                else Some b),
         req_headers =
           [(''Accept'', ''application/vnd.core-api.v2+json''),
            (''Content-Type'', ''application/json'')],
         req_timeout = 3000\<rparr>"
    by (simp add: mk_request_def api_uri_def stringify_body_def api_headers_def
             split: option.splits)
  with t tr show ?thesis by (simp add: http_requests_append)
qed

lemma env_seed_up_simps [simp]:
  "seed_configured env_seed_up" "this_options env_seed_up = with_seed"
  "got env_seed_up tr req = Inr ''{}''" "JSON_parse env_seed_up = parse_stub"
  "JSON_stringify env_seed_up = stringify_stub" "getMilestone env_seed_up = never_aip11"
  by (simp_all add: env_seed_up_def env_seed_down_def with_seed_def seed_configured_def got_ok_def)

lemma getPeer_env_seed_up:
  "getPeer env_seed_up s = Some (Inr \<lparr>ip = ''10.0.0.9'', port = 4003\<rparr>, s)"
  using getPeer_seed[of env_seed_up s] by (simp add: with_seed_def)

theorem sendRequest_try_request_witness:
  "\<exists>r s3. sendRequest_try env_seed_up ''post'' ''transactions''
             \<lparr>query = None, body = Some (JObj [(''id'', JNum 1)])\<rparr> s_init
           = Some (r, \<lparr>query = None, body = Some (JStr ''{}'')\<rparr>, s3)
        \<and> http_requests (trace s3) =
            [\<lparr>req_method = ''post'',
              req_uri = ''http://10.0.0.9:4003/api/transactions'',
              req_query = None,
              req_body = Some (JStr ''{}''),
              req_headers =
                [(''Accept'', ''application/vnd.core-api.v2+json''),
                 (''Content-Type'', ''application/json'')],
              req_timeout = 3000\<rparr>]"
  using sendRequest_try_request[OF getPeer_env_seed_up, of "''post''" "''transactions''"
          "\<lparr>query = None, body = Some (JObj [(''id'', JNum 1)])\<rparr>" s_init]
  by (simp add: stringify_body_def stringify_stub_def s_init_def show_nat.simps)

subsection \<open>Retries select a peer again\<close>

lemma sendRequest_after_try:
  assumes t: "sendRequest_try E m url options s = Some (x, options1, s3)"
    and res: "sendRequest E m url options tries s = Some (r, s')"
  shows "\<exists>rest. trace s' = trace s3 @ rest"
proof (cases x)
  case (Inr v)
  with t have "sendRequest E m url options tries s = Some (v, s3)"
    by (simp add: sendRequest_success)
  with res show ?thesis by simp
next
  case (Inl e)
  show ?thesis
  proof (cases "tries < 2")
    case True
    from sendRequest_retry[OF t[unfolded Inl] True] res
    have "sendRequest E m url options1 (Suc tries) (logger Error (message e) s3) = Some (r, s')"
      by simp
    from sendRequest_frame[OF this] show ?thesis by auto
  next
    case False
    then have "2 \<le> tries" by simp
    from sendRequest_give_up[OF t[unfolded Inl] this] res show ?thesis by auto
  qed
qed

lemma retry_uses_fresh_peer:
  assumes t: "sendRequest_try E m url options s = Some (Inl e, options1, s1)"
    and lt: "tries < 2"
    and g: "getPeer E (logger Error (message e) s1) = Some (Inr p, s2)"
    and res: "sendRequest E m url options tries s = Some (r, s')"
  shows "\<exists>rest. trace s' = trace s2 @
           [EvLog Info (sending_message E (api_uri p url)),
            EvHttp (mk_request m (api_uri p url) (stringify_body E options1))] @ rest"
proof -
  let ?sL = "logger Error (message e) s1"
  from sendRequest_retry[OF t lt] res
  have rec: "sendRequest E m url options1 (Suc tries) ?sL = Some (r, s')" by simp
  from try_selected[OF g, of m url options1] obtain x s3 where
    t2: "sendRequest_try E m url options1 ?sL = Some (x, stringify_body E options1, s3)"
    and tr: "trace s3 = trace s2 @ [EvLog Info (sending_message E (api_uri p url)),
               EvHttp (mk_request m (api_uri p url) (stringify_body E options1))]"
    by blast
  from sendRequest_after_try[OF t2 rec] tr show ?thesis by auto
qed

lemma got_first_down_simps [simp]:
  "got_first_down tr (mk_request m (api_uri peer_one ''blockchain'') opts)
     = Inl (Err HTTPError ''Response code 500 (Internal Server Error)'')"
  "got_first_down tr (mk_request m (api_uri peer_two ''blockchain'') opts) = Inr ''{}''"
  by (simp_all add: got_first_down_def mk_request_def api_uri_def peer_one_def peer_two_def)

lemma parse_stub_ok [simp]: "parse_stub ''{}'' = Inr height_document"
  by (simp add: parse_stub_def)

lemma env_two_run:
  "\<exists>e s1 s2 s'.
     sendRequest_try env_two ''get'' ''blockchain'' \<lparr>query = Some (JObj []), body = None\<rparr> s_init
       = Some (Inl e, \<lparr>query = Some (JObj []), body = None\<rparr>, s1)
   \<and> getPeer env_two (logger Error (message e) s1) = Some (Inr peer_two, s2)
   \<and> sendRequest env_two ''get'' ''blockchain'' \<lparr>query = Some (JObj []), body = None\<rparr> 0 s_init
       = Some (height_document, s')
   \<and> trace s' = trace s2 @
        [EvLog Info (sending_message env_two (api_uri peer_two ''blockchain'')),
         EvHttp (mk_request ''get'' (api_uri peer_two ''blockchain'')
                   \<lparr>query = Some (JObj []), body = None\<rparr>)]
   \<and> map req_uri (http_requests (trace s'))
       = [api_uri peer_one ''blockchain'', api_uri peer_two ''blockchain'']
   \<and> EvProbe (probe_target peer_one) True \<in> set (trace s')"
proof -
  let ?o = "\<lparr>query = Some (JObj []), body = None\<rparr>"
  let ?sA = "emit (EvProbe (probe_target peer_one) True) (emit (EvFindPeers ''core-api'') s_init)"
  have so: "stringify_body env_two ?o = ?o" by (simp add: stringify_body_def)
  have g1: "getPeer env_two s_init = Some (Inr peer_one, ?sA)"
    by (simp add: getPeer_env_two s_init_def)
  from try_selected[OF g1, of "''get''" "''blockchain''" ?o] obtain r1 s1 where
    t1: "sendRequest_try env_two ''get'' ''blockchain'' ?o s_init = Some (r1, ?o, s1)"
    and tr1: "trace s1 = trace ?sA @ [EvLog Info (sending_message env_two (api_uri peer_one ''blockchain'')),
               EvHttp (mk_request ''get'' (api_uri peer_one ''blockchain'') ?o)]"
    and r1: "r1 = Inl (Err HTTPError ''Response code 500 (Internal Server Error)'')"
    by (auto simp: so)
  let ?e = "Err HTTPError ''Response code 500 (Internal Server Error)''"
  let ?sL = "logger Error (message ?e) s1"
  let ?sB = "emit (EvProbe (probe_target peer_two) True) (emit (EvFindPeers ''core-api'') ?sL)"
  have h0: "http_requests (trace s1) = [mk_request ''get'' (api_uri peer_one ''blockchain'') ?o]"
    by (simp add: tr1 s_init_def)
  have h1: "http_requests (trace ?sL) = [mk_request ''get'' (api_uri peer_one ''blockchain'') ?o]"
    by (simp add: h0 http_requests_append)
  have n1: "length (http_requests (trace ?sL)) = 1"
    by (simp only: h1) simp
  have g2: "getPeer env_two ?sL = Some (Inr peer_two, ?sB)"
    using getPeer_env_two[of ?sL] unfolding n1 by simp
  from try_selected[OF g2, of "''get''" "''blockchain''" ?o] obtain r2 s3 where
    t2: "sendRequest_try env_two ''get'' ''blockchain'' ?o ?sL = Some (r2, ?o, s3)"
    and tr2: "trace s3 = trace ?sB @ [EvLog Info (sending_message env_two (api_uri peer_two ''blockchain'')),
               EvHttp (mk_request ''get'' (api_uri peer_two ''blockchain'') ?o)]"
    and r2: "r2 = Inr height_document"
    by (auto simp: so)
  have "sendRequest env_two ''get'' ''blockchain'' ?o 0 s_init
        = sendRequest env_two ''get'' ''blockchain'' ?o (Suc 0) ?sL"
    using t1[unfolded r1] by (rule sendRequest_retry) simp
  also have "\<dots> = Some (height_document, s3)"
    using t2[unfolded r2] by (rule sendRequest_success)
  finally have res: "sendRequest env_two ''get'' ''blockchain'' ?o 0 s_init = Some (height_document, s3)" .
  have uris: "map req_uri (http_requests (trace s3))
       = [api_uri peer_one ''blockchain'', api_uri peer_two ''blockchain'']"
    by (simp add: tr2 http_requests_append h0 mk_request_def)
  have probe: "EvProbe (probe_target peer_one) True \<in> set (trace s3)"
    by (simp add: tr2 tr1)
  from t1[unfolded r1] g2 res tr2 uris probe show ?thesis
    by - (rule exI[of _ ?e], rule exI[of _ s1], rule exI[of _ ?sB], rule exI[of _ s3], simp)
qed

text \<open>
  C2. A failed attempt that leaves retries (\<open>tries < 2\<close>) is followed by a fresh call of
  \<^verbatim>\<open>sendRequest\<close>, which selects a peer again: if \<^verbatim>\<open>getPeer\<close>, run in the state after the
  failure was logged, returns \<open>p\<close>, then the next request of the history goes to \<open>p\<close>.
  And there is a run with the candidates \<open>peer_one\<close> and \<open>peer_two\<close>, both reachable, in
  which \<open>peer_one\<close> passes the probe and fails the HTTP call, and the dispatch returns the
  parsed answer of \<open>peer_two\<close> on its second attempt.
\<close>

theorem sendRequest_retry_reselects:
  "(sendRequest_try E m url options s = Some (Inl e, options1, s1)
      \<and> tries < 2
      \<and> getPeer E (logger Error (message e) s1) = Some (Inr p, s2)
      \<and> sendRequest E m url options tries s = Some (r, s')
    \<longrightarrow> sendRequest E m url options tries s
          = sendRequest E m url options1 (Suc tries) (logger Error (message e) s1)
      \<and> (\<exists>rest. trace s' = trace s2 @
           [EvLog Info (sending_message E (api_uri p url)),
            EvHttp (mk_request m (api_uri p url) (stringify_body E options1))] @ rest))
   \<and> (\<exists>sf. sendRequest env_two ''get'' ''blockchain'' \<lparr>query = Some (JObj []), body = None\<rparr> 0 s_init
              = Some (height_document, sf)
          \<and> map req_uri (http_requests (trace sf))
              = [api_uri peer_one ''blockchain'', api_uri peer_two ''blockchain'']
          \<and> EvProbe (probe_target peer_one) True \<in> set (trace sf))"
proof (intro conjI impI)
  assume a: "sendRequest_try E m url options s = Some (Inl e, options1, s1)
      \<and> tries < 2
      \<and> getPeer E (logger Error (message e) s1) = Some (Inr p, s2)
      \<and> sendRequest E m url options tries s = Some (r, s')"
  then show "sendRequest E m url options tries s
          = sendRequest E m url options1 (Suc tries) (logger Error (message e) s1)"
    by (elim conjE) (rule sendRequest_retry)
  from a show "\<exists>rest. trace s' = trace s2 @
           [EvLog Info (sending_message E (api_uri p url)),
            EvHttp (mk_request m (api_uri p url) (stringify_body E options1))] @ rest"
    by (elim conjE) (rule retry_uses_fresh_peer)
next
  from env_two_run obtain e1 t1 t2 sf where
    "sendRequest env_two ''get'' ''blockchain'' \<lparr>query = Some (JObj []), body = None\<rparr> 0 s_init
       = Some (height_document, sf)"
    "map req_uri (http_requests (trace sf))
       = [api_uri peer_one ''blockchain'', api_uri peer_two ''blockchain'']"
    "EvProbe (probe_target peer_one) True \<in> set (trace sf)"
    by (elim exE conjE)
  then show "\<exists>sf. sendRequest env_two ''get'' ''blockchain'' \<lparr>query = Some (JObj []), body = None\<rparr> 0 s_init
              = Some (height_document, sf)
          \<and> map req_uri (http_requests (trace sf))
              = [api_uri peer_one ''blockchain'', api_uri peer_two ''blockchain'']
          \<and> EvProbe (probe_target peer_one) True \<in> set (trace sf)"
    by - (rule exI[of _ sf], simp)
qed

theorem sendRequest_retry_reselects_witness:
  "\<exists>e s1 s2 sf rest.
     sendRequest_try env_two ''get'' ''blockchain'' \<lparr>query = Some (JObj []), body = None\<rparr> s_init
       = Some (Inl e, \<lparr>query = Some (JObj []), body = None\<rparr>, s1)
   \<and> (0::nat) < 2
   \<and> getPeer env_two (logger Error (message e) s1) = Some (Inr peer_two, s2)
   \<and> sendRequest env_two ''get'' ''blockchain'' \<lparr>query = Some (JObj []), body = None\<rparr> 0 s_init
       = Some (height_document, sf)
   \<and> trace sf = trace s2 @
        [EvLog Info (sending_message env_two (api_uri peer_two ''blockchain'')),
         EvHttp (mk_request ''get'' (api_uri peer_two ''blockchain'')
                   (stringify_body env_two \<lparr>query = Some (JObj []), body = None\<rparr>))] @ rest"
proof -
  let ?o = "\<lparr>query = Some (JObj []), body = None\<rparr>"
  from env_two_run obtain e s1 s2 sf where
    t: "sendRequest_try env_two ''get'' ''blockchain'' ?o s_init = Some (Inl e, ?o, s1)"
    and g: "getPeer env_two (logger Error (message e) s1) = Some (Inr peer_two, s2)"
    and res: "sendRequest env_two ''get'' ''blockchain'' ?o 0 s_init = Some (height_document, sf)"
    by (elim exE conjE)
  have lt: "(0::nat) < 2" by simp
  from t lt g res
  have a: "sendRequest_try env_two ''get'' ''blockchain'' ?o s_init = Some (Inl e, ?o, s1)
      \<and> (0::nat) < 2
      \<and> getPeer env_two (logger Error (message e) s1) = Some (Inr peer_two, s2)
      \<and> sendRequest env_two ''get'' ''blockchain'' ?o 0 s_init = Some (height_document, sf)"
    by simp
  from sendRequest_retry_reselects[THEN conjunct1, THEN mp, OF a, THEN conjunct2]
  obtain rest where tr: "trace sf = trace s2 @
        [EvLog Info (sending_message env_two (api_uri peer_two ''blockchain'')),
         EvHttp (mk_request ''get'' (api_uri peer_two ''blockchain'')
                   (stringify_body env_two ?o))] @ rest"
    by (elim exE)
  from t lt g res tr show ?thesis
    by - (rule exI[of _ e], rule exI[of _ s1], rule exI[of _ s2], rule exI[of _ sf],
          rule exI[of _ rest], simp)
qed

subsection \<open>The milestone watcher\<close>

lemma getHeight_frame:
  assumes "getHeight E s = Some (x, s1)"
  shows "height s1 = height s \<and> timers s1 = timers s"
proof -
  from assms obtain r where
    "sendRequest E ''get'' ''blockchain'' \<lparr>query = Some (JObj []), body = None\<rparr> 0 s = Some (r, s1)"
    by (auto simp: getHeight_def sendGET_def split: option.splits)
  from sendRequest_frame[OF this] show ?thesis by simp
qed

lemma getHeight_undefined:
  assumes "sendGET E ''blockchain'' JUndefined s = Some (JUndefined, s1)"
  shows "getHeight E s = Some (Inl (Err TypeError ''Cannot read property data of undefined''), s1)"
  using assms by (simp add: getHeight_def)

text \<open>
  C7. A run of \<^verbatim>\<open>checkForAip11Enabled\<close> whose height query returned \<open>h\<close> stores \<open>h\<close> with
  \<^verbatim>\<open>setHeight\<close>, reads the milestone of \<open>h\<close>, and returns at once: without a new timer
  when \<^verbatim>\<open>milestone.aip11\<close> holds, and otherwise with exactly one new timer, of
  \<^verbatim>\<open>milestone.blocktime * 1000\<close> ms, for its own next run.
\<close>

theorem checkForAip11Enabled_reschedules:
  assumes "getHeight E s = Some (Inr h, s1)"
  shows "\<exists>s'. checkForAip11Enabled E s = Some (Inr (), s')
          \<and> height s' = h \<and> trace s' = trace s1
          \<and> timers s' = timers s @
                (if aip11 (getMilestone E h) then [] else [blocktime (getMilestone E h) * 1000])"
proof -
  from getHeight_frame[OF assms] have "timers s1 = timers s" by simp
  with assms show ?thesis by (simp add: checkForAip11Enabled_def Let_def)
qed

lemma getHeight_env_seed_up:
  "\<exists>s1. getHeight env_seed_up s_init = Some (Inr (JNum 100), s1)"
proof -
  let ?o = "\<lparr>query = Some (JObj []), body = None\<rparr>"
  from try_selected[OF getPeer_env_seed_up, of "''get''" "''blockchain''" ?o s_init]
  obtain r s3 where
    t: "sendRequest_try env_seed_up ''get'' ''blockchain'' ?o s_init
          = Some (r, stringify_body env_seed_up ?o, s3)"
    and r: "r = Inr height_document"
    by auto
  from sendRequest_success[OF t[unfolded r]]
  have "sendGET env_seed_up ''blockchain'' JUndefined s_init = Some (height_document, s3)"
    by (simp add: sendGET_def)
  then have "getHeight env_seed_up s_init = Some (Inr (JNum 100), s3)"
    by (simp add: getHeight_def height_document_def)
  then show ?thesis by (rule exI)
qed

theorem checkForAip11Enabled_reschedules_witness:
  "\<exists>s1 s'. getHeight env_seed_up s_init = Some (Inr (JNum 100), s1)
      \<and> checkForAip11Enabled env_seed_up s_init = Some (Inr (), s')
      \<and> height s' = JNum 100 \<and> trace s' = trace s1 \<and> timers s' = [8000]"
proof -
  from getHeight_env_seed_up obtain s1 where
    g: "getHeight env_seed_up s_init = Some (Inr (JNum 100), s1)" by (elim exE)
  from checkForAip11Enabled_reschedules[OF g] obtain s' where
    "checkForAip11Enabled env_seed_up s_init = Some (Inr (), s')"
    "height s' = JNum 100" "trace s' = trace s1" "timers s' = [8000]"
    by (auto simp: never_aip11_def s_init_def)
  with g show ?thesis
    by - (rule exI[of _ s1], rule exI[of _ s'], simp)
qed

text \<open>
  C9. When the retry loop is exhausted and \<^verbatim>\<open>sendGET\<close> yields \<^verbatim>\<open>undefined\<close>, \<^verbatim>\<open>getHeight\<close>
  returns no number: reading \<^verbatim>\<open>.data\<close> of \<^verbatim>\<open>undefined\<close> throws a TypeError. The run of
  \<^verbatim>\<open>checkForAip11Enabled\<close> that asked for the height ends with the same error; it sets
  no height and no timer.
\<close>

theorem getHeight_throws_on_undefined:
  assumes "sendGET E ''blockchain'' JUndefined s = Some (JUndefined, s1)"
  shows "getHeight E s = Some (Inl (Err TypeError ''Cannot read property data of undefined''), s1)
       \<and> checkForAip11Enabled E s
           = Some (Inl (Err TypeError ''Cannot read property data of undefined''), s1)
       \<and> timers s1 = timers s \<and> height s1 = height s"
proof -
  note g = getHeight_undefined[OF assms]
  from getHeight_frame[OF g] g show ?thesis by (simp add: checkForAip11Enabled_def)
qed

lemma sendGET_env_seed_down:
  "\<exists>s1. sendGET env_seed_down ''blockchain'' JUndefined s_init = Some (JUndefined, s1)"
proof -
  have sel: "\<forall>s. \<exists>p s1. getPeer env_seed_down s = Some (Inr p, s1)"
    by simp
  have fail: "\<forall>tr req. case got env_seed_down tr req of Inl e \<Rightarrow> True
                        | Inr b \<Rightarrow> isl (JSON_parse env_seed_down b)"
    by (simp add: env_seed_down_def got_timeout_def)
  from all_attempts_fail[OF sel fail, of "''get''" "''blockchain''"
         "\<lparr>query = Some (JObj []), body = None\<rparr>" s_init]
  show ?thesis by (auto simp: sendGET_def)
qed

theorem getHeight_throws_on_undefined_witness:
  "\<exists>s1. sendGET env_seed_down ''blockchain'' JUndefined s_init = Some (JUndefined, s1)
      \<and> getHeight env_seed_down s_init
           = Some (Inl (Err TypeError ''Cannot read property data of undefined''), s1)
      \<and> checkForAip11Enabled env_seed_down s_init
           = Some (Inl (Err TypeError ''Cannot read property data of undefined''), s1)
      \<and> timers s1 = [] \<and> height s1 = JUndefined"
proof -
  from sendGET_env_seed_down obtain s1 where
    g: "sendGET env_seed_down ''blockchain'' JUndefined s_init = Some (JUndefined, s1)"
    by (elim exE)
  from getHeight_throws_on_undefined[OF g] g show ?thesis
    by - (rule exI[of _ s1], simp add: s_init_def)
qed

subsection \<open>The BIP38 wallet\<close>

lemma decryptWIF_keyed:
  assumes "decryptWIF C w userId bip38password = Inr wal"
  shows "\<exists>d. bip38_decrypt C w (bip38password @ userId) = Inr d
           \<and> wif wal = wif_encode C (network_wif C) (privateKey d) (compressed d)
           \<and> keys wal = keys_fromWIF C (wif wal)"
  using assms by (auto simp: decryptWIF_def Let_def split: sum.splits)

text \<open>
  C10, as the code has it. \<^verbatim>\<open>getBIP38Wallet\<close> returns \<^verbatim>\<open>undefined\<close> exactly when the
  value stored under the hex sha256 of \<open>userId\<close> is falsy: there is no entry, or the entry
  is the empty string. For any other entry it returns what \<^verbatim>\<open>decryptWIF\<close> returns or
  throws for that entry, \<open>userId\<close> and the password; and \<^verbatim>\<open>decryptWIF\<close> decrypts with the
  key \<^verbatim>\<open>bip38password + userId\<close> and encodes the WIF of the decrypted private key.
\<close>

theorem getBIP38Wallet_lookup:
  "(getBIP38Wallet C database userId bip38password = Inr None
      \<longleftrightarrow> database (sha256_hex C userId) = None \<or> database (sha256_hex C userId) = Some [])
   \<and> (database (sha256_hex C userId) = Some w \<and> w \<noteq> []
      \<longrightarrow> getBIP38Wallet C database userId bip38password
            = (case decryptWIF C w userId bip38password of
                 Inl e \<Rightarrow> Inl e
               | Inr wal \<Rightarrow> Inr (Some wal)))
   \<and> (decryptWIF C w userId bip38password = Inr wal
      \<longrightarrow> (\<exists>d. bip38_decrypt C w (bip38password @ userId) = Inr d
             \<and> wif wal = wif_encode C (network_wif C) (privateKey d) (compressed d)
             \<and> keys wal = keys_fromWIF C (wif wal)))"
proof (intro conjI impI)
  show "getBIP38Wallet C database userId bip38password = Inr None
      \<longleftrightarrow> database (sha256_hex C userId) = None \<or> database (sha256_hex C userId) = Some []"
    by (simp add: getBIP38Wallet_def split: option.splits sum.splits)
next
  assume "database (sha256_hex C userId) = Some w \<and> w \<noteq> []"
  then show "getBIP38Wallet C database userId bip38password
            = (case decryptWIF C w userId bip38password of
                 Inl e \<Rightarrow> Inl e
               | Inr wal \<Rightarrow> Inr (Some wal))"
    by (simp add: getBIP38Wallet_def)
next
  assume "decryptWIF C w userId bip38password = Inr wal"
  then show "\<exists>d. bip38_decrypt C w (bip38password @ userId) = Inr d
             \<and> wif wal = wif_encode C (network_wif C) (privateKey d) (compressed d)
             \<and> keys wal = keys_fromWIF C (wif wal)"
    by (rule decryptWIF_keyed)
qed

theorem getBIP38Wallet_lookup_witness:
  "db_alice (sha256_hex crypto_stub ''alice'') = Some ''6PYalice''
   \<and> decryptWIF crypto_stub ''6PYalice'' ''alice'' ''secret''
       = Inr \<lparr>keys = ''keys:wif:d6PYalice'', wif = ''wif:d6PYalice''\<rparr>
   \<and> getBIP38Wallet crypto_stub db_alice ''alice'' ''secret''
       = Inr (Some \<lparr>keys = ''keys:wif:d6PYalice'', wif = ''wif:d6PYalice''\<rparr>)
   \<and> bip38_decrypt crypto_stub ''6PYalice'' (''secret'' @ ''alice'')
       = Inr \<lparr>privateKey = ''d6PYalice'', compressed = True\<rparr>
   \<and> getBIP38Wallet crypto_stub db_alice ''bob'' ''secret'' = Inr None"
proof -
  have e: "db_alice (sha256_hex crypto_stub ''alice'') = Some ''6PYalice''"
    by (simp add: db_alice_def crypto_stub_def)
  have d: "decryptWIF crypto_stub ''6PYalice'' ''alice'' ''secret''
       = Inr \<lparr>keys = ''keys:wif:d6PYalice'', wif = ''wif:d6PYalice''\<rparr>"
    by (simp add: decryptWIF_def crypto_stub_def Let_def)
  have b: "bip38_decrypt crypto_stub ''6PYalice'' (''secret'' @ ''alice'')
       = Inr \<lparr>privateKey = ''d6PYalice'', compressed = True\<rparr>"
    by (simp add: crypto_stub_def)
  have n: "db_alice (sha256_hex crypto_stub ''bob'') = None"
    by (simp add: db_alice_def crypto_stub_def)
  note inst = getBIP38Wallet_lookup[of crypto_stub db_alice "''alice''" "''secret''" "''6PYalice''"]
  from inst e d have g: "getBIP38Wallet crypto_stub db_alice ''alice'' ''secret''
       = Inr (Some \<lparr>keys = ''keys:wif:d6PYalice'', wif = ''wif:d6PYalice''\<rparr>)"
    by simp
  from getBIP38Wallet_lookup[of crypto_stub db_alice "''bob''" "''secret''", THEN conjunct1] n
  have u: "getBIP38Wallet crypto_stub db_alice ''bob'' ''secret'' = Inr None"
    by simp
  from e d g b u show ?thesis by simp
qed

text \<open>
  An entry that is the empty string: the database has an entry for the user, and the
  result is \<^verbatim>\<open>undefined\<close>.
\<close>

theorem getBIP38Wallet_blank_entry:
  "db_blank (sha256_hex crypto_stub ''alice'') = Some []
   \<and> getBIP38Wallet crypto_stub db_blank ''alice'' ''secret'' = Inr None"
  by (simp add: getBIP38Wallet_def db_blank_def crypto_stub_def)

end
